theory Spec2Isabelle
  imports Complex_Main
begin

section \<open>Data model\<close>

text \<open>
  The booking, venue and payment documents of the Mongoose schemas, as records.
  A JavaScript \<open>number\<close> is an exact \<open>real\<close> (binary rounding of doubles is not
  modelled; parsed hours and minutes are \<open>int\<close>), a \<open>Date\<close> is its \<open>getTime()\<close> value
  in milliseconds since the epoch, an \<open>ObjectId\<close> is its string form.  The fields of a
  booking that no operation below reads or writes after creation (event type, contact
  details, special requests) are left out.

  Names follow the source.  Where two schemas share a field name the payment's field is
  renamed (\<open>payerId\<close>, \<open>paymentVenueId\<close>, \<open>transactionStatus\<close> for its \<open>userId\<close>,
  \<open>venueId\<close>, \<open>status\<close>), the fields of a request body carry a prefix, \<open>_id\<close> is
  \<open>venue_id\<close>, \<open>booking_id\<close>, \<open>payment_id\<close>, and the values of \<open>TransactionStatus\<close>
  carry the prefix \<open>T_\<close>.
\<close>

type_synonym objectId = string
type_synonym timestamp = int

datatype BookingStatus = PENDING | CONFIRMED | CANCELLED | COMPLETED

datatype PaymentStatus = UNPAID | PARTIAL | PAID | REFUNDED

datatype PaymentGateway = ESEWA | KHALTI

datatype PaymentType = ADVANCE | FULL | BALANCE | REFUND

datatype TransactionStatus = T_INITIATED | T_PENDING | T_COMPLETED | T_FAILED | T_REFUNDED

record CancellationPolicy =
  fullRefundHours :: real
  partialRefundHours :: real
  partialRefundPercentage :: real
  noRefundHours :: real

record Venue =
  venue_id :: objectId
  ownerId :: objectId
  minCapacity :: real
  maxCapacity :: real
  pricePerHour :: real
  blockedDates :: "timestamp list"
  isActive :: bool
  cancellationPolicy :: "CancellationPolicy option"

record Booking =
  booking_id :: objectId
  userId :: objectId
  venueId :: objectId
  eventDate :: timestamp
  startTime :: string
  endTime :: string
  guestCount :: real
  totalAmount :: real
  advancePaid :: real
  balanceAmount :: real
  status :: BookingStatus
  paymentStatus :: PaymentStatus
  cancellationReason :: "string option"
  cancelledAt :: "timestamp option"
  refundAmount :: real
  refundPercentage :: real

text \<open>The raw gateway answer kept on a payment for audit.\<close>

record EsewaCallback =
  transaction_uuid :: string
  total_amount :: string
  transaction_code :: string
  esewa_status :: string

record KhaltiLookup =
  khalti_status :: string
  transaction_id :: "string option"

record KhaltiInitiation =
  payment_url :: string
  init_pidx :: string

datatype GatewayResponse =
    EsewaResponse EsewaCallback
  | KhaltiMock string
  | KhaltiLookupResponse KhaltiLookup
  | KhaltiInitResponse KhaltiInitiation

record Payment =
  payment_id :: objectId
  bookingId :: objectId
  payerId :: objectId
  paymentVenueId :: objectId
  amount :: real
  gateway :: PaymentGateway
  paymentType :: PaymentType
  transactionStatus :: TransactionStatus
  transactionId :: "string option"
  referenceId :: string
  gatewayResponse :: "GatewayResponse option"

text \<open>
  The persistent state: the three collections, each in its natural order, so that
  \<open>find\<close> returns the documents in that order and \<open>findOne\<close> the first match.
\<close>

record Store =
  venues :: "Venue list"
  bookings :: "Booking list"
  payments :: "Payment list"

text \<open>
  Exceptions as values.  A message that the source builds by interpolation keeps its
  interpolated numbers as arguments.
\<close>

datatype message =
    Msg string
  | GuestCountBetween real real
  | BalanceMustBe real

datatype error =
    NotFoundException string
  | BadRequestException message
  | ForbiddenException string
  | ValidationError string
  | DuplicateKeyError string

type_synonym 'a outcome = "(error + 'a) \<times> Store"

section \<open>Collection access\<close>

text \<open>
  \<open>findById\<close> returns the first document with the given \<open>_id\<close>; \<open>save\<close> writes a
  document back under its \<open>_id\<close>, which is unique within a collection.
\<close>

definition findVenueById :: "Store \<Rightarrow> objectId \<Rightarrow> Venue option" where
  "findVenueById s vid = find (\<lambda>v. venue_id v = vid) (venues s)"

definition findBookingById :: "Store \<Rightarrow> objectId \<Rightarrow> Booking option" where
  "findBookingById s bid = find (\<lambda>b. booking_id b = bid) (bookings s)"

definition saveBooking :: "Booking \<Rightarrow> Store \<Rightarrow> Store" where
  "saveBooking b s =
     s\<lparr>bookings := map (\<lambda>x. if booking_id x = booking_id b then b else x) (bookings s)\<rparr>"

definition savePayment :: "Payment \<Rightarrow> Store \<Rightarrow> Store" where
  "savePayment p s =
     s\<lparr>payments := map (\<lambda>x. if payment_id x = payment_id p then p else x) (payments s)\<rparr>"

section \<open>Time strings\<close>

text \<open>
  \<open>String.prototype.split(':')\<close> and \<open>parseInt\<close> with no radix: leading white space,
  an optional sign, an optional \<open>0x\<close> prefix, then the longest run of digits; \<open>NaN\<close>
  (here \<open>None\<close>) when that run is empty.  An index past the end of the split array is
  \<open>undefined\<close>, which \<open>parseInt\<close> turns into \<open>NaN\<close>.
\<close>

fun split_colon :: "string \<Rightarrow> string list" where
  "split_colon [] = [[]]"
| "split_colon (c # cs) =
     (if c = CHR '':'' then [] # split_colon cs
      else (case split_colon cs of [] \<Rightarrow> [[c]] | w # ws \<Rightarrow> (c # w) # ws))"

fun nth_opt :: "'a list \<Rightarrow> nat \<Rightarrow> 'a option" where
  "nth_opt [] n = None"
| "nth_opt (x # xs) 0 = Some x"
| "nth_opt (x # xs) (Suc n) = nth_opt xs n"

definition is_space :: "char \<Rightarrow> bool" where
  "is_space c = ((of_char c :: nat) \<in> {9, 10, 11, 12, 13, 32})"

definition digit_of :: "nat \<Rightarrow> char \<Rightarrow> nat option" where
  "digit_of radix c =
     (let n = (of_char c :: nat);
          d = (if 48 \<le> n \<and> n \<le> 57 then Some (n - 48)
               else if 97 \<le> n \<and> n \<le> 102 then Some (n - 87)
               else if 65 \<le> n \<and> n \<le> 70 then Some (n - 55)
               else None)
      in case d of None \<Rightarrow> None | Some v \<Rightarrow> if v < radix then Some v else None)"

fun digits_value :: "nat \<Rightarrow> nat \<Rightarrow> string \<Rightarrow> nat" where
  "digits_value radix acc [] = acc"
| "digits_value radix acc (c # cs) =
     (case digit_of radix c of
        None \<Rightarrow> acc
      | Some d \<Rightarrow> digits_value radix (acc * radix + d) cs)"

definition parse_digits :: "nat \<Rightarrow> string \<Rightarrow> nat option" where
  "parse_digits radix s =
     (case s of
        [] \<Rightarrow> None
      | c # cs \<Rightarrow> (if digit_of radix c = None then None else Some (digits_value radix 0 s)))"

definition parse_unsigned :: "string \<Rightarrow> nat option" where
  "parse_unsigned s =
     (if take 2 s = ''0x'' \<or> take 2 s = ''0X'' then parse_digits 16 (drop 2 s)
      else parse_digits 10 s)"

definition parseInt :: "string \<Rightarrow> int option" where
  "parseInt s =
     (let t = dropWhile is_space s in
      case t of
        [] \<Rightarrow> None
      | c # cs \<Rightarrow>
          (if c = CHR ''-'' then map_option (\<lambda>n. - int n) (parse_unsigned cs)
           else if c = CHR ''+'' then map_option int (parse_unsigned cs)
           else map_option int (parse_unsigned t)))"

definition hourOf :: "string \<Rightarrow> int option" where
  "hourOf t = Option.bind (nth_opt (split_colon t) 0) parseInt"

definition minuteOf :: "string \<Rightarrow> int option" where
  "minuteOf t = Option.bind (nth_opt (split_colon t) 1) parseInt"

text \<open>
  \<open>parseInt(t.split(':')[0]) * 60 + parseInt(t.split(':')[1])\<close>; \<open>NaN\<close> if either
  part is.
\<close>

definition toMinutes :: "string \<Rightarrow> int option" where
  "toMinutes t =
     (case (hourOf t, minuteOf t) of
        (Some h, Some m) \<Rightarrow> Some (h * 60 + m)
      | _ \<Rightarrow> None)"

text \<open>A comparison with \<open>NaN\<close> is false.\<close>

definition js_less :: "int option \<Rightarrow> int option \<Rightarrow> bool" where
  "js_less a b = (case (a, b) of (Some x, Some y) \<Rightarrow> x < y | _ \<Rightarrow> False)"

section \<open>Availability\<close>

text \<open>
  \<open>toISOString().split('T')[0]\<close> names the UTC calendar day of an instant; two instants
  have the same such string exactly when they fall in the same UTC day.
  \<open>setHours(0, 0, 0, 0)\<close> and \<open>setHours(23, 59, 59, 999)\<close> work in the server's local
  time, \<open>tz\<close> milliseconds ahead of UTC.
\<close>

definition msPerDay :: int where
  "msPerDay = 86400000"

definition isoDay :: "timestamp \<Rightarrow> int" where
  "isoDay t = t div msPerDay"

definition startOfDay :: "int \<Rightarrow> timestamp \<Rightarrow> timestamp" where
  "startOfDay tz t = ((t + tz) div msPerDay) * msPerDay - tz"

definition endOfDay :: "int \<Rightarrow> timestamp \<Rightarrow> timestamp" where
  "endOfDay tz t = startOfDay tz t + (msPerDay - 1)"

definition isBlocked :: "Venue \<Rightarrow> timestamp \<Rightarrow> bool" where
  "isBlocked venue date = list_ex (\<lambda>d. isoDay d = isoDay date) (blockedDates venue)"

definition existingBookings :: "Store \<Rightarrow> int \<Rightarrow> objectId \<Rightarrow> timestamp \<Rightarrow> Booking list" where
  "existingBookings s tz vid date =
     filter (\<lambda>b. venueId b = vid
                \<and> startOfDay tz date \<le> eventDate b \<and> eventDate b \<le> endOfDay tz date
                \<and> (status b = PENDING \<or> status b = CONFIRMED))
       (bookings s)"

definition overlaps :: "Booking \<Rightarrow> string \<Rightarrow> string \<Rightarrow> bool" where
  "overlaps booking startT endT =
     (let existingStart = toMinutes (startTime booking);
          existingEnd = toMinutes (endTime booking);
          newStart = toMinutes startT;
          newEnd = toMinutes endT
      in js_less newStart existingEnd \<and> js_less existingStart newEnd)"

text \<open>The loop over the day's bookings: the first overlap returns \<open>false\<close>.\<close>

fun noOverlap :: "Booking list \<Rightarrow> string \<Rightarrow> string \<Rightarrow> bool" where
  "noOverlap [] startT endT = True"
| "noOverlap (booking # rest) startT endT =
     (if overlaps booking startT endT then False else noOverlap rest startT endT)"

definition checkAvailability ::
  "Store \<Rightarrow> int \<Rightarrow> objectId \<Rightarrow> timestamp \<Rightarrow> string \<Rightarrow> string \<Rightarrow> error + bool" where
  "checkAvailability s tz vid date startT endT =
     (case findVenueById s vid of
        None \<Rightarrow> Inl (NotFoundException ''Venue not found'')
      | Some venue \<Rightarrow>
          if isBlocked venue date then Inr False
          else Inr (noOverlap (existingBookings s tz vid date) startT endT))"

section \<open>Booking engine\<close>

text \<open>
  The request body of \<open>create\<close>.  \<open>dto_eventDate\<close> is the instant that
  \<open>new Date(createBookingDto.eventDate)\<close> denotes.
\<close>

record CreateBookingDto =
  dto_venueId :: objectId
  dto_eventDate :: timestamp
  dto_startTime :: string
  dto_endTime :: string
  dto_guestCount :: real

text \<open>
  \<open>create\<close>: \<open>newId\<close> is the \<open>_id\<close> the driver gives the new document.  The schema
  defaults fill \<open>status\<close>, \<open>paymentStatus\<close>, \<open>advancePaid\<close> and the refund fields.
  A \<open>NaN\<close> total (a time whose hour does not parse) cannot be cast to the schema's
  \<open>Number\<close>, so \<open>save\<close> rejects the document.  The e-mails sent afterwards sit in a
  \<open>try\<close>/\<open>catch\<close> and change nothing that is stored.
\<close>

definition create ::
  "Store \<Rightarrow> int \<Rightarrow> objectId \<Rightarrow> CreateBookingDto \<Rightarrow> objectId \<Rightarrow> Booking outcome" where
  "create s tz newId dto uid =
     (case findVenueById s (dto_venueId dto) of
        None \<Rightarrow> (Inl (NotFoundException ''Venue not found''), s)
      | Some venue \<Rightarrow>
          if \<not> isActive venue then
            (Inl (BadRequestException (Msg ''This venue is not available for booking'')), s)
          else if dto_guestCount dto < minCapacity venue \<or> dto_guestCount dto > maxCapacity venue then
            (Inl (BadRequestException (GuestCountBetween (minCapacity venue) (maxCapacity venue))), s)
          else
            (case checkAvailability s tz (dto_venueId dto) (dto_eventDate dto)
                    (dto_startTime dto) (dto_endTime dto) of
               Inl e \<Rightarrow> (Inl e, s)
             | Inr isAvailable \<Rightarrow>
                 if \<not> isAvailable then
                   (Inl (BadRequestException
                      (Msg ''Venue is not available for the selected date and time'')), s)
                 else
                   (case (hourOf (dto_startTime dto), hourOf (dto_endTime dto)) of
                      (Some startHour, Some endHour) \<Rightarrow>
                        (let hours = endHour - startHour;
                             total = real_of_int hours * pricePerHour venue;
                             booking = \<lparr>booking_id = newId, userId = uid,
                                        venueId = dto_venueId dto,
                                        eventDate = dto_eventDate dto,
                                        startTime = dto_startTime dto,
                                        endTime = dto_endTime dto,
                                        guestCount = dto_guestCount dto,
                                        totalAmount = total, advancePaid = 0,
                                        balanceAmount = total,
                                        status = PENDING, paymentStatus = UNPAID,
                                        cancellationReason = None, cancelledAt = None,
                                        refundAmount = 0, refundPercentage = 0\<rparr>
                         in (Inr booking, s\<lparr>bookings := bookings s @ [booking]\<rparr>))
                    | _ \<Rightarrow> (Inl (ValidationError ''totalAmount''), s))))"

subsection \<open>Refund calculation\<close>

datatype refundMessage =
    FullRefund real
  | PartialRefund real real
  | NoRefund real

record RefundInfo =
  info_refundAmount :: int
  info_refundPercentage :: real
  info_message :: refundMessage

definition defaultPolicy :: CancellationPolicy where
  "defaultPolicy = \<lparr>fullRefundHours = 72, partialRefundHours = 24,
                     partialRefundPercentage = 50, noRefundHours = 0\<rparr>"

text \<open>\<open>Math.round\<close>: the nearest integer, a half going towards \<open>+\<infinity>\<close>.\<close>

definition mathRound :: "real \<Rightarrow> int" where
  "mathRound x = \<lfloor>x + 1 / 2\<rfloor>"

definition hoursUntil :: "timestamp \<Rightarrow> timestamp \<Rightarrow> real" where
  "hoursUntil event now = real_of_int (event - now) / (1000 * 60 * 60)"

text \<open>
  \<open>calculateRefund\<close>, with the clock reading \<open>now\<close> of its \<open>new Date()\<close>.
  \<open>venue.cancellationPolicy || {...}\<close> takes the literal when the venue has none;
  \<open>booking.advancePaid || 0\<close> is the stored number.
\<close>

definition calculateRefund :: "Booking \<Rightarrow> Venue \<Rightarrow> timestamp \<Rightarrow> RefundInfo" where
  "calculateRefund booking venue now =
     (let policy = (case cancellationPolicy venue of None \<Rightarrow> defaultPolicy | Some p \<Rightarrow> p);
          hoursUntilEvent = hoursUntil (eventDate booking) now;
          (percentage, msg) =
             (if hoursUntilEvent \<ge> fullRefundHours policy then
                (100, FullRefund (fullRefundHours policy))
              else if hoursUntilEvent \<ge> partialRefundHours policy then
                (partialRefundPercentage policy,
                 PartialRefund (partialRefundPercentage policy) (fullRefundHours policy))
              else (0, NoRefund (partialRefundHours policy)));
          paidAmount = advancePaid booking;
          refund = mathRound ((paidAmount * percentage) / 100)
      in \<lparr>info_refundAmount = refund, info_refundPercentage = percentage,
          info_message = msg\<rparr>)"

record RefundEstimate =
  est_bookingId :: objectId
  est_paidAmount :: real
  est_refund :: RefundInfo
  est_cancellationPolicy :: "CancellationPolicy option"

definition getRefundEstimate ::
  "Store \<Rightarrow> timestamp \<Rightarrow> objectId \<Rightarrow> objectId \<Rightarrow> RefundEstimate outcome" where
  "getRefundEstimate s now bid uid =
     (case findBookingById s bid of
        None \<Rightarrow> (Inl (NotFoundException ''Booking not found''), s)
      | Some booking \<Rightarrow>
          if userId booking \<noteq> uid then
            (Inl (ForbiddenException ''You can only check refund for your own bookings''), s)
          else
            (case findVenueById s (venueId booking) of
               None \<Rightarrow> (Inl (NotFoundException ''Venue not found''), s)
             | Some venue \<Rightarrow>
                 (Inr \<lparr>est_bookingId = booking_id booking,
                       est_paidAmount = advancePaid booking,
                       est_refund = calculateRefund booking venue now,
                       est_cancellationPolicy = cancellationPolicy venue\<rparr>, s)))"

subsection \<open>Status updates\<close>

record UpdateBookingStatusDto =
  upd_status :: "BookingStatus option"
  upd_paymentStatus :: "PaymentStatus option"
  upd_cancellationReason :: "string option"

text \<open>
  \<open>updateStatus\<close>: \<open>stamp\<close> is the clock reading stored in \<open>cancelledAt\<close>, \<open>now\<close>
  the one taken inside \<open>calculateRefund\<close>.
\<close>

definition updateStatus ::
  "Store \<Rightarrow> timestamp \<Rightarrow> timestamp \<Rightarrow> objectId \<Rightarrow> UpdateBookingStatusDto \<Rightarrow> objectId \<Rightarrow> string
     \<Rightarrow> Booking outcome" where
  "updateStatus s stamp now bid updateDto uid userRole =
     (case findBookingById s bid of
        None \<Rightarrow> (Inl (NotFoundException ''Booking not found''), s)
      | Some booking \<Rightarrow>
          (case findVenueById s (venueId booking) of
             None \<Rightarrow> (Inl (NotFoundException ''Venue not found''), s)
           | Some venue \<Rightarrow>
               (let isBookingOwner = (userId booking = uid);
                    isVenueOwner = (ownerId venue = uid);
                    isAdmin = (userRole = ''ADMIN'')
                in if \<not> isBookingOwner \<and> \<not> isVenueOwner \<and> \<not> isAdmin then
                     (Inl (ForbiddenException
                        ''You do not have permission to update this booking''), s)
                   else if isBookingOwner \<and> \<not> isVenueOwner \<and> \<not> isAdmin
                           \<and> upd_status updateDto \<noteq> None
                           \<and> upd_status updateDto \<noteq> Some CANCELLED then
                     (Inl (ForbiddenException ''You can only cancel your own bookings''), s)
                   else
                     (let b1 = (if upd_status updateDto = Some CANCELLED then
                                  (let refundInfo = calculateRefund booking venue now
                                   in booking\<lparr>cancelledAt := Some stamp,
                                        cancellationReason := upd_cancellationReason updateDto,
                                        refundAmount := real_of_int (info_refundAmount refundInfo),
                                        refundPercentage := info_refundPercentage refundInfo\<rparr>)
                                else booking);
                          b2 = (case upd_status updateDto of
                                  None \<Rightarrow> b1 | Some st \<Rightarrow> b1\<lparr>status := st\<rparr>);
                          b3 = (case upd_paymentStatus updateDto of
                                  None \<Rightarrow> b2 | Some ps \<Rightarrow> b2\<lparr>paymentStatus := ps\<rparr>)
                      in (Inr b3, saveBooking b3 s)))))"

subsection \<open>Rescheduling\<close>

record RescheduleBookingDto =
  newEventDate :: timestamp
  newStartTime :: string
  newEndTime :: string

definition reschedule ::
  "Store \<Rightarrow> int \<Rightarrow> objectId \<Rightarrow> RescheduleBookingDto \<Rightarrow> objectId \<Rightarrow> Booking outcome" where
  "reschedule s tz bid rescheduleDto uid =
     (case findBookingById s bid of
        None \<Rightarrow> (Inl (NotFoundException ''Booking not found''), s)
      | Some booking \<Rightarrow>
          if userId booking \<noteq> uid then
            (Inl (ForbiddenException ''You can only reschedule your own bookings''), s)
          else if \<not> (status booking = PENDING \<or> status booking = CONFIRMED) then
            (Inl (BadRequestException
               (Msg ''Cannot reschedule a cancelled or completed booking'')), s)
          else
            (case checkAvailability s tz (venueId booking) (newEventDate rescheduleDto)
                    (newStartTime rescheduleDto) (newEndTime rescheduleDto) of
               Inl e \<Rightarrow> (Inl e, s)
             | Inr isAvailable \<Rightarrow>
                 if \<not> isAvailable then
                   (Inl (BadRequestException (Msg ''The new date/time is not available'')), s)
                 else
                   (case findVenueById s (venueId booking) of
                      None \<Rightarrow> (Inl (NotFoundException ''Venue not found''), s)
                    | Some venue \<Rightarrow>
                        (case (hourOf (newStartTime rescheduleDto),
                               hourOf (newEndTime rescheduleDto)) of
                           (Some startHour, Some endHour) \<Rightarrow>
                             (let hours = endHour - startHour;
                                  newTotalAmount = real_of_int hours * pricePerHour venue;
                                  b' = booking\<lparr>eventDate := newEventDate rescheduleDto,
                                         startTime := newStartTime rescheduleDto,
                                         endTime := newEndTime rescheduleDto,
                                         totalAmount := newTotalAmount,
                                         balanceAmount := newTotalAmount - advancePaid booking\<rparr>
                              in (Inr b', saveBooking b' s))
                         | _ \<Rightarrow> (Inl (ValidationError ''totalAmount''), s)))))"

section \<open>Payment orchestrator\<close>

text \<open>
  The one configuration value the control flow depends on; an unset
  \<open>KHALTI_SECRET_KEY\<close> is the empty string.
\<close>

record Config =
  khaltiSecretKey :: string

record InitiatePaymentDto =
  ip_bookingId :: objectId
  ip_amount :: real
  ip_gateway :: PaymentGateway
  ip_paymentType :: "PaymentType option"

text \<open>
  What \<open>initiatePayment\<close> hands back to the client.  The HMAC signature and the
  constant form fields of the eSewa form are left out.
\<close>

datatype PaymentData =
    EsewaData objectId string real real
  | KhaltiMockData objectId string string
  | KhaltiData objectId string string string

definition generateEsewaPaymentData :: "Payment \<Rightarrow> PaymentData" where
  "generateEsewaPaymentData payment =
     (let amt = amount payment;
          taxAmount = 0; serviceCharge = 0; deliveryCharge = 0;
          total = amt + taxAmount + serviceCharge + deliveryCharge
      in EsewaData (payment_id payment) (referenceId payment) amt total)"

text \<open>
  \<open>generateKhaltiPaymentData\<close>: \<open>response\<close> is the answer of the provider's initiation
  endpoint, \<open>None\<close> when the request fails.
\<close>

definition generateKhaltiPaymentData ::
  "Config \<Rightarrow> KhaltiInitiation option \<Rightarrow> Payment \<Rightarrow> Store \<Rightarrow> PaymentData outcome" where
  "generateKhaltiPaymentData cfg response payment s =
     (if khaltiSecretKey cfg = [] then
        (Inr (KhaltiMockData (payment_id payment) (referenceId payment)
                (''mock_'' @ referenceId payment)), s)
      else
        (case response of
           None \<Rightarrow> (Inl (BadRequestException (Msg ''Failed to initiate Khalti payment'')), s)
         | Some r \<Rightarrow>
             (Inr (KhaltiData (payment_id payment) (referenceId payment)
                     (payment_url r) (init_pidx r)),
              savePayment (payment\<lparr>transactionId := Some (init_pidx r),
                                    gatewayResponse := Some (KhaltiInitResponse r)\<rparr>) s)))"

text \<open>
  \<open>initiatePayment\<close>: \<open>newId\<close> and \<open>refId\<close> are the \<open>_id\<close> and the generated reference
  id of the new payment; the schema's unique index on \<open>referenceId\<close> rejects a second
  document with the same one.  The final \<open>throw\<close> of the source is unreachable for a
  gateway of the enum.
\<close>

definition initiatePayment ::
  "Store \<Rightarrow> Config \<Rightarrow> objectId \<Rightarrow> string \<Rightarrow> KhaltiInitiation option \<Rightarrow> InitiatePaymentDto
     \<Rightarrow> objectId \<Rightarrow> PaymentData outcome" where
  "initiatePayment s cfg newId refId response dto uid =
     (case findBookingById s (ip_bookingId dto) of
        None \<Rightarrow> (Inl (NotFoundException ''Booking not found''), s)
      | Some booking \<Rightarrow>
          if userId booking \<noteq> uid then
            (Inl (BadRequestException (Msg ''You can only pay for your own bookings'')), s)
          else
            (let ptype = (case ip_paymentType dto of None \<Rightarrow> FULL | Some t \<Rightarrow> t)
             in if ptype = ADVANCE \<and> ip_amount dto < totalAmount booking * (2 / 10) then
                  (Inl (BadRequestException
                     (Msg ''Advance payment must be at least 20% of total amount'')), s)
                else if ptype = FULL \<and> ip_amount dto \<noteq> totalAmount booking then
                  (Inl (BadRequestException
                     (Msg ''Full payment amount must match booking total'')), s)
                else if ptype = BALANCE
                        \<and> ip_amount dto \<noteq> totalAmount booking - advancePaid booking then
                  (Inl (BadRequestException
                     (BalanceMustBe (totalAmount booking - advancePaid booking))), s)
                else if list_ex (\<lambda>p. referenceId p = refId) (payments s) then
                  (Inl (DuplicateKeyError ''referenceId''), s)
                else
                  (let payment = \<lparr>payment_id = newId, bookingId = booking_id booking,
                                   payerId = uid, paymentVenueId = venueId booking,
                                   amount = ip_amount dto, gateway = ip_gateway dto,
                                   paymentType = ptype, transactionStatus = T_INITIATED,
                                   transactionId = None, referenceId = refId,
                                   gatewayResponse = None\<rparr>;
                       s1 = s\<lparr>payments := payments s @ [payment]\<rparr>
                   in (case ip_gateway dto of
                         ESEWA \<Rightarrow> (Inr (generateEsewaPaymentData payment), s1)
                       | KHALTI \<Rightarrow> generateKhaltiPaymentData cfg response payment s1))))"

subsection \<open>Verification\<close>

text \<open>\<open>updateBookingPayment\<close>: a payment of type \<open>REFUND\<close> matches no branch.\<close>

definition updateBookingPayment :: "Payment \<Rightarrow> Store \<Rightarrow> Store" where
  "updateBookingPayment payment s =
     (case findBookingById s (bookingId payment) of
        None \<Rightarrow> s
      | Some booking \<Rightarrow>
          (let b' = (if paymentType payment = ADVANCE then
                       booking\<lparr>advancePaid := amount payment,
                                balanceAmount := totalAmount booking - amount payment,
                                paymentStatus := PARTIAL\<rparr>
                     else if paymentType payment = FULL then
                       booking\<lparr>advancePaid := amount payment,
                                balanceAmount := 0,
                                paymentStatus := PAID\<rparr>
                     else if paymentType payment = BALANCE then
                       booking\<lparr>advancePaid := advancePaid booking + amount payment,
                                balanceAmount := 0,
                                paymentStatus := PAID\<rparr>
                     else booking)
           in saveBooking b' s))"

record VerifyResult =
  success :: bool
  result_message :: string
  result_payment :: Payment

text \<open>
  \<open>verifyEsewaPayment\<close>: \<open>decoded\<close> is the JSON object carried by the base64 callback,
  \<open>None\<close> when decoding or parsing throws.  The whole body sits in a \<open>try\<close> whose
  \<open>catch\<close> replaces every exception, the missing payment included, by one
  \<open>BadRequestException\<close>.
\<close>

definition verifyEsewaPayment :: "Store \<Rightarrow> EsewaCallback option \<Rightarrow> VerifyResult outcome" where
  "verifyEsewaPayment s decoded =
     (case decoded of
        None \<Rightarrow> (Inl (BadRequestException (Msg ''Payment verification failed'')), s)
      | Some decodedData \<Rightarrow>
          (case find (\<lambda>p. referenceId p = transaction_uuid decodedData) (payments s) of
             None \<Rightarrow> (Inl (BadRequestException (Msg ''Payment verification failed'')), s)
           | Some payment \<Rightarrow>
               if esewa_status decodedData = ''COMPLETE'' then
                 (let p' = payment\<lparr>transactionStatus := T_COMPLETED,
                                   transactionId := Some (transaction_code decodedData),
                                   gatewayResponse := Some (EsewaResponse decodedData)\<rparr>
                  in (Inr \<lparr>success = True,
                           result_message = ''Payment verified successfully'',
                           result_payment = p'\<rparr>,
                      updateBookingPayment p' (savePayment p' s)))
               else
                 (let p' = payment\<lparr>transactionStatus := T_FAILED,
                                   gatewayResponse := Some (EsewaResponse decodedData)\<rparr>
                  in (Inr \<lparr>success = False, result_message = ''Payment failed'',
                           result_payment = p'\<rparr>,
                      savePayment p' s))))"

text \<open>
  \<open>verifyKhaltiPayment\<close>: \<open>response\<close> is the answer of the provider's lookup endpoint,
  \<open>None\<close> when the request fails.  For a \<open>pidx\<close> that starts with \<open>mock_\<close>,
  \<open>pidx.replace('mock_', '')\<close> drops that prefix.
\<close>

definition findPaymentByPidx :: "Store \<Rightarrow> string \<Rightarrow> Payment option" where
  "findPaymentByPidx s pidx =
     (case find (\<lambda>p. transactionId p = Some pidx) (payments s) of
        Some payment \<Rightarrow> Some payment
      | None \<Rightarrow>
          if take 5 pidx = ''mock_'' then
            find (\<lambda>p. referenceId p = drop 5 pidx) (payments s)
          else None)"

definition verifyKhaltiPayment ::
  "Store \<Rightarrow> Config \<Rightarrow> KhaltiLookup option \<Rightarrow> string \<Rightarrow> VerifyResult outcome" where
  "verifyKhaltiPayment s cfg response pidx =
     (case findPaymentByPidx s pidx of
        None \<Rightarrow> (Inl (NotFoundException ''Payment not found''), s)
      | Some payment \<Rightarrow>
          if khaltiSecretKey cfg = [] then
            (let p' = payment\<lparr>transactionStatus := T_COMPLETED,
                              transactionId := Some pidx,
                              gatewayResponse := Some (KhaltiMock pidx)\<rparr>
             in (Inr \<lparr>success = True,
                      result_message = ''[DEV MODE] Payment marked as completed'',
                      result_payment = p'\<rparr>,
                 updateBookingPayment p' (savePayment p' s)))
          else
            (case response of
               None \<Rightarrow> (Inl (BadRequestException (Msg ''Payment verification failed'')), s)
             | Some r \<Rightarrow>
                 if khalti_status r = ''Completed'' then
                   (let p' = payment\<lparr>transactionStatus := T_COMPLETED,
                                     transactionId := transaction_id r,
                                     gatewayResponse := Some (KhaltiLookupResponse r)\<rparr>
                    in (Inr \<lparr>success = True,
                             result_message = ''Payment verified successfully'',
                             result_payment = p'\<rparr>,
                        updateBookingPayment p' (savePayment p' s)))
                 else
                   (let p' = payment\<lparr>transactionStatus := T_FAILED,
                                     gatewayResponse := Some (KhaltiLookupResponse r)\<rparr>
                    in (Inr \<lparr>success = False,
                             result_message = ''Payment status: '' @ khalti_status r,
                             result_payment = p'\<rparr>,
                        savePayment p' s))))"

section \<open>Notions used to state the properties\<close>

text \<open>Two instants fall on the same calendar day of the server's local time.\<close>

definition sameLocalDay :: "int \<Rightarrow> timestamp \<Rightarrow> timestamp \<Rightarrow> bool" where
  "sameLocalDay tz a b = ((a + tz) div msPerDay = (b + tz) div msPerDay)"

text \<open>
  Rounding to the nearest integer with a half going away from zero, as the
  specification words it.
\<close>

definition roundHalfAwayFromZero :: "real \<Rightarrow> int" where
  "roundHalfAwayFromZero x = (if 0 \<le> x then \<lfloor>x + 1 / 2\<rfloor> else \<lceil>x - 1 / 2\<rceil>)"




section \<open>Example states\<close>

text \<open>
  A venue at 5000 per hour with the schema's default cancellation policy and one blocked
  date (1 January 2026), and a pending booking of it on 2 January 2026, 10:00 to 12:00.
\<close>

definition policy1 :: CancellationPolicy where
  "policy1 = \<lparr>fullRefundHours = 72, partialRefundHours = 24,
                partialRefundPercentage = 50, noRefundHours = 0\<rparr>"

definition venue1 :: Venue where
  "venue1 = \<lparr>venue_id = ''v1'', ownerId = ''owner1'', minCapacity = 10, maxCapacity = 500,
              pricePerHour = 5000, blockedDates = [1767225600000], isActive = True,
              cancellationPolicy = Some policy1\<rparr>"

definition booking1 :: Booking where
  "booking1 = \<lparr>booking_id = ''b1'', userId = ''u1'', venueId = ''v1'',
                eventDate = 1767312000000, startTime = ''10:00'', endTime = ''12:00'',
                guestCount = 200, totalAmount = 10000, advancePaid = 0,
                balanceAmount = 10000, status = PENDING, paymentStatus = UNPAID,
                cancellationReason = None, cancelledAt = None,
                refundAmount = 0, refundPercentage = 0\<rparr>"

definition store1 :: Store where
  "store1 = \<lparr>venues = [venue1], bookings = [booking1], payments = []\<rparr>"

text \<open>
  The same booking confirmed with 10000 paid, a second venue without a cancellation
  policy and a booking of it, and the clock 30 hours before the event.
\<close>

definition bookingPaid :: Booking where
  "bookingPaid = booking1\<lparr>advancePaid := 10000, balanceAmount := 0,
                             status := CONFIRMED, paymentStatus := PAID\<rparr>"

definition venue2 :: Venue where
  "venue2 = venue1\<lparr>venue_id := ''v2'', cancellationPolicy := None\<rparr>"

definition booking2 :: Booking where
  "booking2 = bookingPaid\<lparr>booking_id := ''b2'', venueId := ''v2''\<rparr>"

definition clock30 :: timestamp where
  "clock30 = 1767312000000 - 30 * 3600000"

text \<open>
  Another user's pending booking of the first venue with the same event date and the
  same paid amount, a cancelled and a completed booking, and the store holding them all.
\<close>

definition booking3 :: Booking where
  "booking3 = bookingPaid\<lparr>booking_id := ''b3'', userId := ''u3'', startTime := ''14:00'',
                            endTime := ''18:00'', guestCount := 50, totalAmount := 20000,
                            balanceAmount := 10000, status := PENDING,
                            paymentStatus := PARTIAL\<rparr>"

definition bookingCancelled :: Booking where
  "bookingCancelled = bookingPaid\<lparr>booking_id := ''b4'', status := CANCELLED,
                                    cancelledAt := Some 1767000000000,
                                    refundAmount := 10000, refundPercentage := 100\<rparr>"

definition bookingCompleted :: Booking where
  "bookingCompleted = bookingPaid\<lparr>booking_id := ''b5'', status := COMPLETED\<rparr>"

definition store3 :: Store where
  "store3 = \<lparr>venues = [venue1, venue2],
              bookings = [bookingPaid, booking2, booking3, bookingCancelled, bookingCompleted],
              payments = []\<rparr>"

text \<open>
  A booking of 40000 with nothing paid, and the same booking after an advance of 8000
  with a balance payment of 32000 initiated through eSewa.
\<close>

definition booking40 :: Booking where
  "booking40 = booking1\<lparr>booking_id := ''b40'', endTime := ''18:00'', totalAmount := 40000,
                          balanceAmount := 40000\<rparr>"

definition store4 :: Store where
  "store4 = \<lparr>venues = [venue1], bookings = [booking40], payments = []\<rparr>"

definition booking40adv :: Booking where
  "booking40adv = booking40\<lparr>advancePaid := 8000, balanceAmount := 32000,
                               paymentStatus := PARTIAL\<rparr>"

definition paymentBalance :: Payment where
  "paymentBalance = \<lparr>payment_id = ''p2'', bookingId = ''b40'', payerId = ''u1'',
                      paymentVenueId = ''v1'', amount = 32000, gateway = ESEWA,
                      paymentType = BALANCE, transactionStatus = T_INITIATED,
                      transactionId = None, referenceId = ''PAY-2'',
                      gatewayResponse = None\<rparr>"

definition store5 :: Store where
  "store5 = \<lparr>venues = [venue1], bookings = [booking40adv], payments = [paymentBalance]\<rparr>"

definition callback2 :: EsewaCallback where
  "callback2 = \<lparr>transaction_uuid = ''PAY-2'', total_amount = ''32000'',
                 transaction_code = ''TX2'', esewa_status = ''COMPLETE''\<rparr>"

text \<open>A full payment of 40000 through eSewa and its successful callback.\<close>

definition dtoFull :: InitiatePaymentDto where
  "dtoFull = \<lparr>ip_bookingId = ''b40'', ip_amount = 40000, ip_gateway = ESEWA,
               ip_paymentType = Some FULL\<rparr>"

definition callback1 :: EsewaCallback where
  "callback1 = \<lparr>transaction_uuid = ''PAY-1'', total_amount = ''40000'',
                 transaction_code = ''TX1'', esewa_status = ''COMPLETE''\<rparr>"

section \<open>Basic facts\<close>

lemmas time_defs = toMinutes_def hourOf_def minuteOf_def parseInt_def parse_unsigned_def
  parse_digits_def digit_of_def is_space_def js_less_def

lemmas example_defs = policy1_def venue1_def booking1_def store1_def

lemmas example2_defs = bookingPaid_def venue2_def booking2_def clock30_def

lemmas example3_defs = booking3_def bookingCancelled_def bookingCompleted_def store3_def

lemmas example4_defs = booking40_def store4_def booking40adv_def paymentBalance_def store5_def
  callback2_def

lemmas example5_defs = dtoFull_def callback1_def

lemma day_window:
  "(startOfDay tz date \<le> t \<and> t \<le> endOfDay tz date) = sameLocalDay tz t date"
  unfolding startOfDay_def endOfDay_def sameLocalDay_def msPerDay_def by arith

lemma noOverlap_iff: "noOverlap bs startT endT = (\<not> (\<exists>b \<in> set bs. overlaps b startT endT))"
  by (induction bs) auto



text \<open>On a negative half the two roundings differ.\<close>

lemma mathRound_negative_half:
  "mathRound (- 1 / 2) = 0 \<and> roundHalfAwayFromZero (- 1 / 2) = - 1"
proof -
  have "\<lceil>- 1 :: real\<rceil> = - 1" using ceiling_of_int [of "- 1", where ?'a = real] by simp
  then show ?thesis by (simp add: mathRound_def roundHalfAwayFromZero_def)
qed

lemma findBookingById_id: "findBookingById s bid = Some b \<Longrightarrow> booking_id b = bid"
  by (auto simp: findBookingById_def find_Some_iff)

lemma findBookingById_mem: "findBookingById s bid = Some b \<Longrightarrow> b \<in> set (bookings s)"
  by (auto simp: findBookingById_def find_Some_iff)

lemma getRefundEstimate_store: "snd (getRefundEstimate s now bid uid) = s"
  by (simp add: getRefundEstimate_def split: option.splits)

lemma getRefundEstimate_Inr:
  assumes "findBookingById s bid = Some booking" and "userId booking = uid"
    and "findVenueById s (venueId booking) = Some venue"
  shows "fst (getRefundEstimate s now bid uid) =
           Inr \<lparr>est_bookingId = bid, est_paidAmount = advancePaid booking,
                est_refund = calculateRefund booking venue now,
                est_cancellationPolicy = cancellationPolicy venue\<rparr>"
  using assms findBookingById_id [OF assms(1)] by (simp add: getRefundEstimate_def)

lemma calculateRefund_cong:
  assumes "eventDate b = eventDate b'" and "advancePaid b = advancePaid b'"
    and "cancellationPolicy v = cancellationPolicy v'"
  shows "calculateRefund b v now = calculateRefund b' v' now"
  using assms by (simp add: calculateRefund_def)


lemma split_colon_prefix:
  "CHR '':'' \<notin> set h \<Longrightarrow> split_colon (h @ CHR '':'' # m) = h # split_colon m"
  by (induction h) auto

lemma hourOf_prefix: "CHR '':'' \<notin> set h \<Longrightarrow> hourOf (h @ CHR '':'' # m) = parseInt h"
  by (simp add: hourOf_def split_colon_prefix)

lemma split_colon_single: "CHR '':'' \<notin> set m \<Longrightarrow> split_colon m = [m]"
  by (induction m) auto

text \<open>A time \<open>h:m\<close> is \<open>h\<close> times 60 plus \<open>m\<close> minutes after midnight.\<close>

lemma toMinutes_parts:
  assumes "CHR '':'' \<notin> set h" and "CHR '':'' \<notin> set m"
    and "parseInt h = Some a" and "parseInt m = Some b"
  shows "toMinutes (h @ CHR '':'' # m) = Some (a * 60 + b)"
  using assms
  by (simp add: toMinutes_def hourOf_def minuteOf_def split_colon_prefix split_colon_single)

lemma overlaps_mem_unavailable:
  assumes "findVenueById s vid = Some venue" and "b \<in> set (bookings s)"
    and "venueId b = vid" and "status b = PENDING \<or> status b = CONFIRMED"
    and "sameLocalDay tz (eventDate b) date" and "overlaps b startT endT"
  shows "checkAvailability s tz vid date startT endT = Inr False"
proof -
  have "b \<in> set (existingBookings s tz vid date)"
    using assms by (simp add: existingBookings_def day_window)
  then have "\<not> noOverlap (existingBookings s tz vid date) startT endT"
    using assms(6) by (auto simp: noOverlap_iff)
  then show ?thesis using assms(1) by (simp add: checkAvailability_def)
qed

lemma find_map_replace:
  assumes "find (\<lambda>x. f x = k) xs = Some b" and "f b' = k"
  shows "find (\<lambda>x. f x = k) (map (\<lambda>x. if f x = k then b' else x) xs) = Some b'"
  using assms by (induction xs) (auto split: if_splits)

lemma findBookingById_saveBooking:
  assumes "findBookingById s bid = Some b" and "booking_id b' = bid"
  shows "findBookingById (saveBooking b' s) bid = Some b'"
  using find_map_replace [of booking_id bid "bookings s" b b'] assms
  by (simp add: findBookingById_def saveBooking_def)

lemma bookings_savePayment [simp]: "bookings (savePayment p s) = bookings s"
  by (simp add: savePayment_def)

lemma payments_saveBooking [simp]: "payments (saveBooking b s) = payments s"
  by (simp add: saveBooking_def)

lemma findBookingById_savePayment [simp]:
  "findBookingById (savePayment p s) bid = findBookingById s bid"
  by (simp add: findBookingById_def)

lemma payments_updateBookingPayment [simp]:
  "payments (updateBookingPayment p s) = payments s"
  by (simp add: updateBookingPayment_def Let_def split: option.splits)

text \<open>The booking-update step as a function on the booking.\<close>

lemma updateBookingPayment_found:
  assumes "findBookingById s (bookingId payment) = Some booking"
  shows "findBookingById (updateBookingPayment payment s) (bookingId payment) =
           Some (if paymentType payment = ADVANCE then
                   booking\<lparr>advancePaid := amount payment,
                            balanceAmount := totalAmount booking - amount payment,
                            paymentStatus := PARTIAL\<rparr>
                 else if paymentType payment = FULL then
                   booking\<lparr>advancePaid := amount payment, balanceAmount := 0,
                            paymentStatus := PAID\<rparr>
                 else if paymentType payment = BALANCE then
                   booking\<lparr>advancePaid := advancePaid booking + amount payment,
                            balanceAmount := 0, paymentStatus := PAID\<rparr>
                 else booking)"
proof -
  define b' where "b' =
    (if paymentType payment = ADVANCE then
       booking\<lparr>advancePaid := amount payment,
                balanceAmount := totalAmount booking - amount payment,
                paymentStatus := PARTIAL\<rparr>
     else if paymentType payment = FULL then
       booking\<lparr>advancePaid := amount payment, balanceAmount := 0,
                paymentStatus := PAID\<rparr>
     else if paymentType payment = BALANCE then
       booking\<lparr>advancePaid := advancePaid booking + amount payment,
                balanceAmount := 0, paymentStatus := PAID\<rparr>
     else booking)"
  have "booking_id booking = bookingId payment"
    using assms by (rule findBookingById_id)
  then have id: "booking_id b' = bookingId payment"
    by (simp add: b'_def)
  have "updateBookingPayment payment s = saveBooking b' s"
    by (simp add: updateBookingPayment_def assms b'_def Let_def)
  then show ?thesis
    using findBookingById_saveBooking [OF assms id] by (simp add: b'_def)
qed

lemma find_append_new:
  assumes "\<not> list_ex P xs" and "P p"
  shows "find P (xs @ [p]) = Some p"
  using assms by (induction xs) auto

lemma find_map_replace_last:
  assumes "\<forall>x \<in> set xs. \<not> P x" and "P p'" and "g p"
  shows "find P (map (\<lambda>x. if g x then p' else x) (xs @ [p])) = Some p'"
  using assms by (induction xs) auto

text \<open>What a successful initiation of a full payment has checked and stored.\<close>

lemma initiatePayment_full_success:
  assumes init: "initiatePayment s cfg newId refId response dto uid = (Inr d, s1)"
    and full: "ip_paymentType dto = None \<or> ip_paymentType dto = Some FULL"
  shows "\<exists>booking p.
           findBookingById s (ip_bookingId dto) = Some booking
         \<and> ip_amount dto = totalAmount booking
         \<and> \<not> list_ex (\<lambda>q. referenceId q = refId) (payments s)
         \<and> p = \<lparr>payment_id = newId, bookingId = booking_id booking,
                 payerId = uid, paymentVenueId = venueId booking,
                 amount = ip_amount dto, gateway = ip_gateway dto,
                 paymentType = FULL, transactionStatus = T_INITIATED,
                 transactionId = None, referenceId = refId,
                 gatewayResponse = None\<rparr>
         \<and> (Inr d, s1) =
             (case ip_gateway dto of
                ESEWA \<Rightarrow> (Inr (generateEsewaPaymentData p), s\<lparr>payments := payments s @ [p]\<rparr>)
              | KHALTI \<Rightarrow> generateKhaltiPaymentData cfg response p
                            (s\<lparr>payments := payments s @ [p]\<rparr>))"
proof -
  have pt: "(case ip_paymentType dto of None \<Rightarrow> FULL | Some t \<Rightarrow> t) = FULL"
    using full by auto
  obtain booking where b: "findBookingById s (ip_bookingId dto) = Some booking"
  proof (cases "findBookingById s (ip_bookingId dto)")
    case None
    then have "fst (initiatePayment s cfg newId refId response dto uid) =
        Inl (NotFoundException ''Booking not found'')"
      by (simp add: initiatePayment_def)
    with init show ?thesis by simp
  qed blast
  have u: "userId booking = uid"
  proof (rule ccontr)
    assume "userId booking \<noteq> uid"
    then have "fst (initiatePayment s cfg newId refId response dto uid) =
        Inl (BadRequestException (Msg ''You can only pay for your own bookings''))"
      by (simp add: initiatePayment_def b)
    with init show False by simp
  qed
  have amt: "ip_amount dto = totalAmount booking"
  proof (rule ccontr)
    assume "ip_amount dto \<noteq> totalAmount booking"
    then have "fst (initiatePayment s cfg newId refId response dto uid) =
        Inl (BadRequestException (Msg ''Full payment amount must match booking total''))"
      by (simp add: initiatePayment_def b u pt)
    with init show False by simp
  qed
  have fresh: "\<not> list_ex (\<lambda>q. referenceId q = refId) (payments s)"
  proof
    assume "list_ex (\<lambda>q. referenceId q = refId) (payments s)"
    then have "fst (initiatePayment s cfg newId refId response dto uid) =
        Inl (DuplicateKeyError ''referenceId'')"
      by (simp add: initiatePayment_def b u pt amt)
    with init show False by simp
  qed
  have "initiatePayment s cfg newId refId response dto uid =
      (let p = \<lparr>payment_id = newId, bookingId = booking_id booking,
                 payerId = uid, paymentVenueId = venueId booking,
                 amount = ip_amount dto, gateway = ip_gateway dto,
                 paymentType = FULL, transactionStatus = T_INITIATED,
                 transactionId = None, referenceId = refId,
                 gatewayResponse = None\<rparr>
       in case ip_gateway dto of
                ESEWA \<Rightarrow> (Inr (generateEsewaPaymentData p), s\<lparr>payments := payments s @ [p]\<rparr>)
              | KHALTI \<Rightarrow> generateKhaltiPaymentData cfg response p
                            (s\<lparr>payments := payments s @ [p]\<rparr>))"
    using fresh by (simp add: initiatePayment_def b u pt amt Let_def)
  with init b amt fresh show ?thesis by (simp add: Let_def)
qed


lemma verified_full_booking:
  assumes b: "findBookingById s1 bid = Some booking"
    and p: "bookingId p' = bid" "paymentType p' = FULL" "amount p' = totalAmount booking"
  shows "\<exists>b'. findBookingById (updateBookingPayment p' (savePayment p' s1)) bid = Some b'
           \<and> paymentStatus b' = PAID \<and> balanceAmount b' = 0 \<and> advancePaid b' = totalAmount b'"
proof -
  have "findBookingById (savePayment p' s1) (bookingId p') = Some booking"
    using b p(1) by simp
  from updateBookingPayment_found [OF this] show ?thesis
    using p by simp
qed

lemma roundtrip_esewa:
  assumes init: "initiatePayment s cfg newId refId response dto uid = (Inr d, s1)"
    and gw: "ip_gateway dto = ESEWA"
    and full: "ip_paymentType dto = None \<or> ip_paymentType dto = Some FULL"
    and cb: "transaction_uuid cb = refId" "esewa_status cb = ''COMPLETE''"
  shows "\<exists>r s2 b. verifyEsewaPayment s1 (Some cb) = (Inr r, s2) \<and> success r
           \<and> findBookingById s2 (ip_bookingId dto) = Some b
           \<and> paymentStatus b = PAID \<and> balanceAmount b = 0 \<and> advancePaid b = totalAmount b"
proof -
  from initiatePayment_full_success [OF init full] gw
  obtain booking p where b: "findBookingById s (ip_bookingId dto) = Some booking"
    and amt: "ip_amount dto = totalAmount booking"
    and fresh: "\<not> list_ex (\<lambda>q. referenceId q = refId) (payments s)"
    and p: "p = \<lparr>payment_id = newId, bookingId = booking_id booking,
                 payerId = uid, paymentVenueId = venueId booking,
                 amount = ip_amount dto, gateway = ip_gateway dto,
                 paymentType = FULL, transactionStatus = T_INITIATED,
                 transactionId = None, referenceId = refId,
                 gatewayResponse = None\<rparr>"
    and s1: "s1 = s\<lparr>payments := payments s @ [p]\<rparr>"
    by auto
  have ref: "referenceId p = refId" by (simp add: p)
  have f: "find (\<lambda>q. referenceId q = refId) (payments s1) = Some p"
    using find_append_new [OF fresh ref] by (simp add: s1)
  define p' where "p' = p\<lparr>transactionStatus := T_COMPLETED,
                            transactionId := Some (transaction_code cb),
                            gatewayResponse := Some (EsewaResponse cb)\<rparr>"
  have v: "verifyEsewaPayment s1 (Some cb) =
             (Inr \<lparr>success = True, result_message = ''Payment verified successfully'',
                   result_payment = p'\<rparr>,
              updateBookingPayment p' (savePayment p' s1))"
    by (simp add: verifyEsewaPayment_def f cb p'_def Let_def)
  have b1: "findBookingById s1 (ip_bookingId dto) = Some booking"
    using b by (simp add: s1 findBookingById_def)
  have "bookingId p' = ip_bookingId dto" "paymentType p' = FULL"
    "amount p' = totalAmount booking"
    using findBookingById_id [OF b] amt by (simp_all add: p'_def p)
  from verified_full_booking [OF b1 this] v show ?thesis by auto
qed

lemma roundtrip_khalti_mock:
  assumes init: "initiatePayment s cfg newId refId response dto uid =
                   (Inr (KhaltiMockData pid ref pidx), s1)"
    and gw: "ip_gateway dto = KHALTI"
    and full: "ip_paymentType dto = None \<or> ip_paymentType dto = Some FULL"
    and key: "khaltiSecretKey cfg = []"
    and new: "\<forall>q \<in> set (payments s). transactionId q \<noteq> Some pidx"
  shows "\<exists>r s2 b. verifyKhaltiPayment s1 cfg lookup pidx = (Inr r, s2) \<and> success r
           \<and> findBookingById s2 (ip_bookingId dto) = Some b
           \<and> paymentStatus b = PAID \<and> balanceAmount b = 0 \<and> advancePaid b = totalAmount b"
proof -
  from initiatePayment_full_success [OF init full] gw
  obtain booking p where b: "findBookingById s (ip_bookingId dto) = Some booking"
    and amt: "ip_amount dto = totalAmount booking"
    and fresh: "\<not> list_ex (\<lambda>q. referenceId q = refId) (payments s)"
    and p: "p = \<lparr>payment_id = newId, bookingId = booking_id booking,
                 payerId = uid, paymentVenueId = venueId booking,
                 amount = ip_amount dto, gateway = ip_gateway dto,
                 paymentType = FULL, transactionStatus = T_INITIATED,
                 transactionId = None, referenceId = refId,
                 gatewayResponse = None\<rparr>"
    and g: "(Inr (KhaltiMockData pid ref pidx), s1) =
              generateKhaltiPaymentData cfg response p (s\<lparr>payments := payments s @ [p]\<rparr>)"
    by auto
  have ref: "referenceId p = refId" and tid: "transactionId p = None" by (simp_all add: p)
  from g have s1: "s1 = s\<lparr>payments := payments s @ [p]\<rparr>" and pidx: "pidx = ''mock_'' @ refId"
    by (simp_all add: generateKhaltiPaymentData_def key ref)
  have "find (\<lambda>q. transactionId q = Some pidx) (payments s1) = None"
    using new tid by (auto simp: s1 find_None_iff)
  moreover have "find (\<lambda>q. referenceId q = refId) (payments s1) = Some p"
    using find_append_new [OF fresh ref] by (simp add: s1)
  ultimately have f: "findPaymentByPidx s1 pidx = Some p"
    by (simp add: findPaymentByPidx_def pidx)
  define p' where "p' = p\<lparr>transactionStatus := T_COMPLETED,
                            transactionId := Some pidx,
                            gatewayResponse := Some (KhaltiMock pidx)\<rparr>"
  have v: "verifyKhaltiPayment s1 cfg lookup pidx =
             (Inr \<lparr>success = True,
                   result_message = ''[DEV MODE] Payment marked as completed'',
                   result_payment = p'\<rparr>,
              updateBookingPayment p' (savePayment p' s1))"
    by (simp add: verifyKhaltiPayment_def f key p'_def Let_def)
  have b1: "findBookingById s1 (ip_bookingId dto) = Some booking"
    using b by (simp add: s1 findBookingById_def)
  have "bookingId p' = ip_bookingId dto" "paymentType p' = FULL"
    "amount p' = totalAmount booking"
    using findBookingById_id [OF b] amt by (simp_all add: p'_def p)
  from verified_full_booking [OF b1 this] v show ?thesis by auto
qed

lemma roundtrip_khalti:
  assumes init: "initiatePayment s cfg newId refId response dto uid =
                   (Inr (KhaltiData pid ref url pidx), s1)"
    and gw: "ip_gateway dto = KHALTI"
    and full: "ip_paymentType dto = None \<or> ip_paymentType dto = Some FULL"
    and key: "khaltiSecretKey cfg \<noteq> []"
    and new: "\<forall>q \<in> set (payments s). transactionId q \<noteq> Some pidx"
    and lookup: "khalti_status lookup = ''Completed''"
  shows "\<exists>r s2 b. verifyKhaltiPayment s1 cfg (Some lookup) pidx = (Inr r, s2) \<and> success r
           \<and> findBookingById s2 (ip_bookingId dto) = Some b
           \<and> paymentStatus b = PAID \<and> balanceAmount b = 0 \<and> advancePaid b = totalAmount b"
proof -
  from initiatePayment_full_success [OF init full] gw
  obtain booking p where b: "findBookingById s (ip_bookingId dto) = Some booking"
    and amt: "ip_amount dto = totalAmount booking"
    and p: "p = \<lparr>payment_id = newId, bookingId = booking_id booking,
                 payerId = uid, paymentVenueId = venueId booking,
                 amount = ip_amount dto, gateway = ip_gateway dto,
                 paymentType = FULL, transactionStatus = T_INITIATED,
                 transactionId = None, referenceId = refId,
                 gatewayResponse = None\<rparr>"
    and g: "(Inr (KhaltiData pid ref url pidx), s1) =
              generateKhaltiPaymentData cfg response p (s\<lparr>payments := payments s @ [p]\<rparr>)"
    by auto
  obtain r where r: "response = Some r"
    using g key by (cases response) (simp_all add: generateKhaltiPaymentData_def)
  define p1 where "p1 = p\<lparr>transactionId := Some (init_pidx r),
                            gatewayResponse := Some (KhaltiInitResponse r)\<rparr>"
  from g have s1: "s1 = savePayment p1 (s\<lparr>payments := payments s @ [p]\<rparr>)"
    and px: "init_pidx r = pidx"
    by (simp_all add: generateKhaltiPaymentData_def key r p1_def)
  have p1: "transactionId p1 = Some pidx" "payment_id p = payment_id p1"
    by (simp_all add: p1_def px)
  have "find (\<lambda>q. transactionId q = Some pidx) (payments s1) = Some p1"
    unfolding s1 savePayment_def
    using find_map_replace_last [of "payments s" "\<lambda>q. transactionId q = Some pidx" p1
        "\<lambda>x. payment_id x = payment_id p1" p] new p1
    by simp
  then have f: "findPaymentByPidx s1 pidx = Some p1"
    by (simp add: findPaymentByPidx_def)
  define p' where "p' = p1\<lparr>transactionStatus := T_COMPLETED,
                            transactionId := transaction_id lookup,
                            gatewayResponse := Some (KhaltiLookupResponse lookup)\<rparr>"
  have v: "verifyKhaltiPayment s1 cfg (Some lookup) pidx =
             (Inr \<lparr>success = True, result_message = ''Payment verified successfully'',
                   result_payment = p'\<rparr>,
              updateBookingPayment p' (savePayment p' s1))"
    by (simp add: verifyKhaltiPayment_def f key lookup p'_def Let_def)
  have b1: "findBookingById s1 (ip_bookingId dto) = Some booking"
    using b by (simp add: s1 findBookingById_def)
  have "bookingId p' = ip_bookingId dto" "paymentType p' = FULL"
    "amount p' = totalAmount booking"
    using findBookingById_id [OF b] amt by (simp_all add: p'_def p1_def p)
  from verified_full_booking [OF b1 this] v show ?thesis by auto
qed














section \<open>Availability checker\<close>



section \<open>Refund calculation\<close>



text \<open>
  C9.  \<open>getRefundEstimate\<close> leaves the store as it found it, whatever it returns, so
  no field of any booking changes.  The estimate it returns echoes the requested booking
  id and otherwise depends only on the event date, the clock, the paid amount and the
  venue's cancellation policy: two calls at the same clock reading, on bookings that
  agree on event date and paid amount under equal policies, return the same refund
  information, paid amount and policy.
\<close>

theorem getRefundEstimate_pure:
  "snd (getRefundEstimate s now bid uid) = s
   \<and> (findBookingById s bid = Some b \<and> userId b = uid
        \<and> findVenueById s (venueId b) = Some v
        \<and> findBookingById s' bid' = Some b' \<and> userId b' = uid'
        \<and> findVenueById s' (venueId b') = Some v'
        \<and> eventDate b = eventDate b' \<and> advancePaid b = advancePaid b'
        \<and> cancellationPolicy v = cancellationPolicy v'
      \<longrightarrow> (\<exists>est est'. fst (getRefundEstimate s now bid uid) = Inr est
              \<and> fst (getRefundEstimate s' now bid' uid') = Inr est'
              \<and> est_bookingId est = bid \<and> est_bookingId est' = bid'
              \<and> est_refund est = est_refund est'
              \<and> est_paidAmount est = est_paidAmount est'
              \<and> est_cancellationPolicy est = est_cancellationPolicy est'))"
  by (auto simp: getRefundEstimate_store getRefundEstimate_Inr
        calculateRefund_cong [of b b' v v'])

text \<open>
  Two bookings of different users that differ in slot, total and status but agree on
  event date and paid amount get the same estimate, a refund of 5000.
\<close>

theorem getRefundEstimate_pure_witness:
  "snd (getRefundEstimate store3 clock30 ''b1'' ''u1'') = store3
   \<and> (\<exists>est est'. fst (getRefundEstimate store3 clock30 ''b1'' ''u1'') = Inr est
         \<and> fst (getRefundEstimate store3 clock30 ''b3'' ''u3'') = Inr est'
         \<and> est_refund est = est_refund est'
         \<and> info_refundAmount (est_refund est) = 5000)"
proof -
  have b: "findBookingById store3 ''b1'' = Some bookingPaid"
    by (simp add: findBookingById_def example_defs example2_defs example3_defs)
  have b': "findBookingById store3 ''b3'' = Some booking3"
    by (simp add: findBookingById_def example_defs example2_defs example3_defs)
  have u: "userId bookingPaid = ''u1''" "userId booking3 = ''u3''"
    by (simp_all add: example_defs example2_defs example3_defs)
  have v: "findVenueById store3 (venueId bookingPaid) = Some venue1"
    "findVenueById store3 (venueId booking3) = Some venue1"
    by (simp_all add: findVenueById_def example_defs example2_defs example3_defs)
  have e: "eventDate bookingPaid = eventDate booking3" "advancePaid bookingPaid = advancePaid booking3"
    by (simp_all add: example2_defs example3_defs)
  have r: "info_refundAmount (calculateRefund bookingPaid venue1 clock30) = 5000"
    by (simp add: calculateRefund_def hoursUntil_def mathRound_def example_defs example2_defs)
  from getRefundEstimate_pure [of store3 clock30 "''b1''" "''u1''" bookingPaid venue1
      store3 "''b3''" booking3 "''u3''" venue1] b b' u v e
  obtain est est' where
    "snd (getRefundEstimate store3 clock30 ''b1'' ''u1'') = store3"
    "fst (getRefundEstimate store3 clock30 ''b1'' ''u1'') = Inr est"
    "fst (getRefundEstimate store3 clock30 ''b3'' ''u3'') = Inr est'"
    "est_refund est = est_refund est'"
    by auto
  moreover have "info_refundAmount (est_refund est) = 5000"
    using getRefundEstimate_Inr [OF b u(1) v(1), of clock30] calculation(2) r by simp
  ultimately show ?thesis by blast
qed



section \<open>Status transitions\<close>

text \<open>
  C3.  \<open>CANCELLED\<close> and \<open>COMPLETED\<close> are meant to be terminal, yet \<open>updateStatus\<close>
  never looks at the current status: here an administrator moves a cancelled booking to
  \<open>CONFIRMED\<close>, and the booking's own user moves a completed booking to \<open>CANCELLED\<close>.
\<close>

theorem updateStatus_leaves_terminal_state:
  "status bookingCancelled = CANCELLED
   \<and> map_sum id status (fst (updateStatus store3 clock30 clock30 ''b4''
        \<lparr>upd_status = Some CONFIRMED, upd_paymentStatus = None, upd_cancellationReason = None\<rparr>
        ''admin1'' ''ADMIN'')) = Inr CONFIRMED
   \<and> status bookingCompleted = COMPLETED
   \<and> map_sum id status (fst (updateStatus store3 clock30 clock30 ''b5''
        \<lparr>upd_status = Some CANCELLED, upd_paymentStatus = None, upd_cancellationReason = None\<rparr>
        ''u1'' ''USER'')) = Inr CANCELLED"
proof -
  have b4: "findBookingById store3 ''b4'' = Some bookingCancelled"
    by (simp add: findBookingById_def example_defs example2_defs example3_defs)
  have b5: "findBookingById store3 ''b5'' = Some bookingCompleted"
    by (simp add: findBookingById_def example_defs example2_defs example3_defs)
  have v: "findVenueById store3 (venueId bookingCancelled) = Some venue1"
    "findVenueById store3 (venueId bookingCompleted) = Some venue1"
    by (simp_all add: findVenueById_def example_defs example2_defs example3_defs)
  have u: "userId bookingCompleted = ''u1''" "ownerId venue1 = ''owner1''"
    by (simp_all add: example_defs example2_defs example3_defs)
  have s: "status bookingCancelled = CANCELLED" "status bookingCompleted = COMPLETED"
    by (simp_all add: example3_defs)
  show ?thesis
    by (simp add: updateStatus_def b4 b5 v u s Let_def)
qed

section \<open>Booking creation\<close>

text \<open>
  C7.  A successful \<open>create\<close> computes the total as (hour of the end time minus hour
  of the start time) times the venue's price per hour, from the text before the colon
  of each time only, whatever the minutes are, and stores the new booking with status
  \<open>PENDING\<close>, payment status \<open>UNPAID\<close>, nothing paid and the whole total as balance.
\<close>

theorem create_totalAmount:
  assumes "findVenueById s (dto_venueId dto) = Some venue" and "isActive venue"
    and "minCapacity venue \<le> dto_guestCount dto" and "dto_guestCount dto \<le> maxCapacity venue"
    and "checkAvailability s tz (dto_venueId dto) (dto_eventDate dto)
           (dto_startTime dto) (dto_endTime dto) = Inr True"
    and "dto_startTime dto = sh @ CHR '':'' # sm" and "CHR '':'' \<notin> set sh"
    and "parseInt sh = Some startHour"
    and "dto_endTime dto = eh @ CHR '':'' # em" and "CHR '':'' \<notin> set eh"
    and "parseInt eh = Some endHour"
  shows "\<exists>b. create s tz newId dto uid = (Inr b, s\<lparr>bookings := bookings s @ [b]\<rparr>)
           \<and> totalAmount b = real_of_int (endHour - startHour) * pricePerHour venue
           \<and> status b = PENDING \<and> paymentStatus b = UNPAID
           \<and> advancePaid b = 0 \<and> balanceAmount b = totalAmount b"
proof -
  have "hourOf (dto_startTime dto) = Some startHour" "hourOf (dto_endTime dto) = Some endHour"
    using assms by (simp_all add: hourOf_prefix)
  then show ?thesis
    using assms(1-5) by (simp add: create_def Let_def)
qed

text \<open>At 5000 per hour, the slot 10:00 to 18:00 costs 40000.\<close>

theorem create_totalAmount_witness:
  "\<exists>b. fst (create store1 20700000 ''b9''
             \<lparr>dto_venueId = ''v1'', dto_eventDate = 1767398400000, dto_startTime = ''10:00'',
              dto_endTime = ''18:00'', dto_guestCount = 200\<rparr> ''u2'') = Inr b
        \<and> totalAmount b = 40000 \<and> balanceAmount b = 40000 \<and> advancePaid b = 0
        \<and> status b = PENDING \<and> paymentStatus b = UNPAID"
proof -
  let ?dto = "\<lparr>dto_venueId = ''v1'', dto_eventDate = 1767398400000, dto_startTime = ''10:00'',
              dto_endTime = ''18:00'', dto_guestCount = 200\<rparr>"
  have v: "findVenueById store1 (dto_venueId ?dto) = Some venue1"
    by (simp add: findVenueById_def example_defs)
  have a: "isActive venue1" "minCapacity venue1 \<le> dto_guestCount ?dto"
    "dto_guestCount ?dto \<le> maxCapacity venue1" "pricePerHour venue1 = 5000"
    by (simp_all add: example_defs)
  have c: "checkAvailability store1 20700000 (dto_venueId ?dto) (dto_eventDate ?dto)
             (dto_startTime ?dto) (dto_endTime ?dto) = Inr True"
    by (simp add: checkAvailability_def findVenueById_def isBlocked_def isoDay_def
          existingBookings_def startOfDay_def endOfDay_def msPerDay_def example_defs)
  have t: "dto_startTime ?dto = ''10'' @ CHR '':'' # ''00''" "CHR '':'' \<notin> set ''10''"
    "parseInt ''10'' = Some 10"
    "dto_endTime ?dto = ''18'' @ CHR '':'' # ''00''" "CHR '':'' \<notin> set ''18''"
    "parseInt ''18'' = Some 18"
    by (simp_all add: time_defs)
  from create_totalAmount [OF v a(1) a(2) a(3) c t, of "''b9''" "''u2''"]
  show ?thesis by (auto simp: a(4))
qed

section \<open>Rescheduling\<close>

text \<open>
  C4, as the code has it.  \<open>reschedule\<close> does not exclude the booking being moved:
  the availability check runs over every \<open>PENDING\<close> or \<open>CONFIRMED\<close> booking of the
  venue on the new day, that booking included.  For a reschedulable booking and its own
  user, a new interval on the booking's current calendar day that overlaps its current
  slot is refused with \<open>The new date/time is not available\<close> and the store is left
  unchanged; and that refusal occurs exactly when \<open>checkAvailability\<close> is false for
  the new slot.
\<close>

theorem reschedule_counts_own_slot:
  assumes "findBookingById s bid = Some booking" and "userId booking = uid"
    and "status booking = PENDING \<or> status booking = CONFIRMED"
    and "findVenueById s (venueId booking) = Some venue"
  shows "(sameLocalDay tz (eventDate booking) (newEventDate dto)
            \<and> overlaps booking (newStartTime dto) (newEndTime dto)
          \<longrightarrow> reschedule s tz bid dto uid =
                (Inl (BadRequestException (Msg ''The new date/time is not available'')), s))
       \<and> ((fst (reschedule s tz bid dto uid) =
              Inl (BadRequestException (Msg ''The new date/time is not available'')))
           = (checkAvailability s tz (venueId booking) (newEventDate dto)
                (newStartTime dto) (newEndTime dto) = Inr False))"
proof -
  have own: "checkAvailability s tz (venueId booking) (newEventDate dto)
                (newStartTime dto) (newEndTime dto) = Inr False"
    if "sameLocalDay tz (eventDate booking) (newEventDate dto)"
      "overlaps booking (newStartTime dto) (newEndTime dto)"
    using overlaps_mem_unavailable [OF assms(4) findBookingById_mem [OF assms(1)] refl assms(3) that] .
  have iff: "(fst (reschedule s tz bid dto uid) =
              Inl (BadRequestException (Msg ''The new date/time is not available'')))
           = (checkAvailability s tz (venueId booking) (newEventDate dto)
                (newStartTime dto) (newEndTime dto) = Inr False)"
    using assms by (auto simp: reschedule_def Let_def checkAvailability_def split: option.splits sum.splits)
  have "reschedule s tz bid dto uid =
                (Inl (BadRequestException (Msg ''The new date/time is not available'')), s)"
    if "checkAvailability s tz (venueId booking) (newEventDate dto)
                (newStartTime dto) (newEndTime dto) = Inr False"
    using assms that by (simp add: reschedule_def)
  with own iff show ?thesis by blast
qed

text \<open>
  C4 as claimed fails: the only booking in the store, pending, 10:00 to 12:00 on a date
  that is not blocked, cannot be moved by its user to 11:00 to 13:00 of the same day.
\<close>

theorem reschedule_own_slot_counterexample:
  "findBookingById store1 ''b1'' = Some booking1
   \<and> userId booking1 = ''u1'' \<and> status booking1 = PENDING
   \<and> bookings store1 = [booking1]
   \<and> findVenueById store1 (venueId booking1) = Some venue1
   \<and> \<not> isBlocked venue1 1767312000000
   \<and> reschedule store1 20700000 ''b1''
        \<lparr>newEventDate = 1767312000000, newStartTime = ''11:00'', newEndTime = ''13:00''\<rparr> ''u1''
      = (Inl (BadRequestException (Msg ''The new date/time is not available'')), store1)"
  by (simp add: reschedule_def checkAvailability_def findVenueById_def findBookingById_def
        isBlocked_def isoDay_def existingBookings_def startOfDay_def endOfDay_def msPerDay_def
        overlaps_def example_defs time_defs)

text \<open>Moving the same booking to 11:30 to 12:30, one hour later that day, is refused too.\<close>

theorem reschedule_counts_own_slot_witness:
  "reschedule store1 20700000 ''b1''
        \<lparr>newEventDate = 1767312000000 + 3600000, newStartTime = ''11:30'', newEndTime = ''12:30''\<rparr> ''u1''
      = (Inl (BadRequestException (Msg ''The new date/time is not available'')), store1)"
proof -
  let ?dto = "\<lparr>newEventDate = 1767312000000 + 3600000, newStartTime = ''11:30'', newEndTime = ''12:30''\<rparr>"
  have b: "findBookingById store1 ''b1'' = Some booking1"
    by (simp add: findBookingById_def example_defs)
  have u: "userId booking1 = ''u1''" "status booking1 = PENDING \<or> status booking1 = CONFIRMED"
    by (simp_all add: example_defs)
  have v: "findVenueById store1 (venueId booking1) = Some venue1"
    by (simp add: findVenueById_def example_defs)
  have d: "sameLocalDay 20700000 (eventDate booking1) (newEventDate ?dto)"
    by (simp add: sameLocalDay_def msPerDay_def example_defs)
  have o: "overlaps booking1 (newStartTime ?dto) (newEndTime ?dto)"
    by (simp add: overlaps_def example_defs time_defs)
  from reschedule_counts_own_slot [OF b u v, of 20700000 ?dto] d o
  show ?thesis by simp
qed

section \<open>Payment initiation\<close>



section \<open>Payment verification\<close>

text \<open>
  C6.  The booking-update step sets, for \<open>ADVANCE\<close>: paid = amount, balance = total
  minus amount, \<open>PARTIAL\<close>; for \<open>FULL\<close>: paid = amount, balance = 0, \<open>PAID\<close>; for
  \<open>BALANCE\<close>: paid increased by amount, balance = 0, \<open>PAID\<close>; every other field of
  the booking stays.  Hence a successful \<open>initiatePayment\<close> of type \<open>FULL\<close> followed
  at once by one successful verification leaves the booking \<open>PAID\<close> with balance 0:
  through eSewa with the callback of the new reference id, through Khalti without a
  configured key with the mock token handed out, and through Khalti with the provider's
  token and a lookup answer \<open>Completed\<close> (the token being new among the stored
  transaction ids).
\<close>

theorem updateBookingPayment_by_type:
  "(findBookingById s0 (bookingId payment) = Some booking \<longrightarrow>
      (\<exists>b'. findBookingById (updateBookingPayment payment s0) (bookingId payment) = Some b'
         \<and> (paymentType payment = ADVANCE \<longrightarrow>
               b' = booking\<lparr>advancePaid := amount payment,
                             balanceAmount := totalAmount booking - amount payment,
                             paymentStatus := PARTIAL\<rparr>)
         \<and> (paymentType payment = FULL \<longrightarrow>
               b' = booking\<lparr>advancePaid := amount payment, balanceAmount := 0,
                             paymentStatus := PAID\<rparr>)
         \<and> (paymentType payment = BALANCE \<longrightarrow>
               b' = booking\<lparr>advancePaid := advancePaid booking + amount payment,
                             balanceAmount := 0, paymentStatus := PAID\<rparr>)))
   \<and> (ip_paymentType dto = None \<or> ip_paymentType dto = Some FULL \<longrightarrow>
        (ip_gateway dto = ESEWA
           \<and> initiatePayment s cfg newId refId response dto uid = (Inr d, s1)
           \<and> transaction_uuid cb = refId \<and> esewa_status cb = ''COMPLETE''
         \<longrightarrow> (\<exists>r s2 b. verifyEsewaPayment s1 (Some cb) = (Inr r, s2) \<and> success r
                \<and> findBookingById s2 (ip_bookingId dto) = Some b
                \<and> paymentStatus b = PAID \<and> balanceAmount b = 0))
      \<and> (ip_gateway dto = KHALTI \<and> khaltiSecretKey cfg = []
           \<and> initiatePayment s cfg newId refId response dto uid
                = (Inr (KhaltiMockData pid ref pidx), s1)
           \<and> (\<forall>q \<in> set (payments s). transactionId q \<noteq> Some pidx)
         \<longrightarrow> (\<exists>r s2 b. verifyKhaltiPayment s1 cfg lookup pidx = (Inr r, s2) \<and> success r
                \<and> findBookingById s2 (ip_bookingId dto) = Some b
                \<and> paymentStatus b = PAID \<and> balanceAmount b = 0))
      \<and> (ip_gateway dto = KHALTI \<and> khaltiSecretKey cfg \<noteq> []
           \<and> initiatePayment s cfg newId refId response dto uid
                = (Inr (KhaltiData pid ref url pidx), s1)
           \<and> (\<forall>q \<in> set (payments s). transactionId q \<noteq> Some pidx)
           \<and> khalti_status answer = ''Completed''
         \<longrightarrow> (\<exists>r s2 b. verifyKhaltiPayment s1 cfg (Some answer) pidx = (Inr r, s2) \<and> success r
                \<and> findBookingById s2 (ip_bookingId dto) = Some b
                \<and> paymentStatus b = PAID \<and> balanceAmount b = 0)))"
proof (intro conjI impI)
  assume "findBookingById s0 (bookingId payment) = Some booking"
  from updateBookingPayment_found [OF this]
  show "\<exists>b'. findBookingById (updateBookingPayment payment s0) (bookingId payment) = Some b'
         \<and> (paymentType payment = ADVANCE \<longrightarrow>
               b' = booking\<lparr>advancePaid := amount payment,
                             balanceAmount := totalAmount booking - amount payment,
                             paymentStatus := PARTIAL\<rparr>)
         \<and> (paymentType payment = FULL \<longrightarrow>
               b' = booking\<lparr>advancePaid := amount payment, balanceAmount := 0,
                             paymentStatus := PAID\<rparr>)
         \<and> (paymentType payment = BALANCE \<longrightarrow>
               b' = booking\<lparr>advancePaid := advancePaid booking + amount payment,
                             balanceAmount := 0, paymentStatus := PAID\<rparr>)"
    by simp
next
  assume full: "ip_paymentType dto = None \<or> ip_paymentType dto = Some FULL"
    and h: "ip_gateway dto = ESEWA
           \<and> initiatePayment s cfg newId refId response dto uid = (Inr d, s1)
           \<and> transaction_uuid cb = refId \<and> esewa_status cb = ''COMPLETE''"
  from h have "ip_gateway dto = ESEWA"
    "initiatePayment s cfg newId refId response dto uid = (Inr d, s1)"
    "transaction_uuid cb = refId" "esewa_status cb = ''COMPLETE''" by simp_all
  from roundtrip_esewa [OF this(2) this(1) full this(3,4)]
  show "\<exists>r s2 b. verifyEsewaPayment s1 (Some cb) = (Inr r, s2) \<and> success r
                \<and> findBookingById s2 (ip_bookingId dto) = Some b
                \<and> paymentStatus b = PAID \<and> balanceAmount b = 0"
    by blast
next
  assume full: "ip_paymentType dto = None \<or> ip_paymentType dto = Some FULL"
    and h: "ip_gateway dto = KHALTI \<and> khaltiSecretKey cfg = []
           \<and> initiatePayment s cfg newId refId response dto uid
                = (Inr (KhaltiMockData pid ref pidx), s1)
           \<and> (\<forall>q \<in> set (payments s). transactionId q \<noteq> Some pidx)"
  from h have "ip_gateway dto = KHALTI" "khaltiSecretKey cfg = []"
    "initiatePayment s cfg newId refId response dto uid = (Inr (KhaltiMockData pid ref pidx), s1)"
    "\<forall>q \<in> set (payments s). transactionId q \<noteq> Some pidx" by simp_all
  from roundtrip_khalti_mock [OF this(3) this(1) full this(2,4), of lookup]
  show "\<exists>r s2 b. verifyKhaltiPayment s1 cfg lookup pidx = (Inr r, s2) \<and> success r
                \<and> findBookingById s2 (ip_bookingId dto) = Some b
                \<and> paymentStatus b = PAID \<and> balanceAmount b = 0"
    by blast
next
  assume full: "ip_paymentType dto = None \<or> ip_paymentType dto = Some FULL"
    and h: "ip_gateway dto = KHALTI \<and> khaltiSecretKey cfg \<noteq> []
           \<and> initiatePayment s cfg newId refId response dto uid
                = (Inr (KhaltiData pid ref url pidx), s1)
           \<and> (\<forall>q \<in> set (payments s). transactionId q \<noteq> Some pidx)
           \<and> khalti_status answer = ''Completed''"
  from h have "ip_gateway dto = KHALTI" "khaltiSecretKey cfg \<noteq> []"
    "initiatePayment s cfg newId refId response dto uid = (Inr (KhaltiData pid ref url pidx), s1)"
    "\<forall>q \<in> set (payments s). transactionId q \<noteq> Some pidx"
    "khalti_status answer = ''Completed''" by simp_all
  from roundtrip_khalti [OF this(3) this(1) full this(2,4,5)]
  show "\<exists>r s2 b. verifyKhaltiPayment s1 cfg (Some answer) pidx = (Inr r, s2) \<and> success r
                \<and> findBookingById s2 (ip_bookingId dto) = Some b
                \<and> paymentStatus b = PAID \<and> balanceAmount b = 0"
    by blast
qed

text \<open>
  A full payment of 40000 for the booking of 40000 through eSewa, then its callback.
\<close>

theorem updateBookingPayment_by_type_witness:
  "\<exists>d s1 r s2 b. initiatePayment store4 \<lparr>khaltiSecretKey = []\<rparr> ''p1'' ''PAY-1'' None dtoFull ''u1''
       = (Inr d, s1)
     \<and> verifyEsewaPayment s1 (Some callback1) = (Inr r, s2) \<and> success r
     \<and> findBookingById s2 ''b40'' = Some b \<and> paymentStatus b = PAID \<and> balanceAmount b = 0"
proof -
  obtain d s1 where init:
    "initiatePayment store4 \<lparr>khaltiSecretKey = []\<rparr> ''p1'' ''PAY-1'' None dtoFull ''u1'' = (Inr d, s1)"
    by (simp add: initiatePayment_def findBookingById_def generateEsewaPaymentData_def
          example_defs example4_defs example5_defs)
  have h: "ip_paymentType dtoFull = None \<or> ip_paymentType dtoFull = Some FULL"
    "ip_gateway dtoFull = ESEWA" "transaction_uuid callback1 = ''PAY-1''"
    "esewa_status callback1 = ''COMPLETE''" "ip_bookingId dtoFull = ''b40''"
    by (simp_all add: example5_defs)
  from updateBookingPayment_by_type [THEN conjunct2, rule_format, THEN conjunct1, rule_format,
      of dtoFull store4 "\<lparr>khaltiSecretKey = []\<rparr>" "''p1''" "''PAY-1''" None "''u1''" d s1
         callback1]
    init h
  show ?thesis by (auto simp: h(5))
qed




end
